theory Spec2Isabelle
  imports Main "HOL-Library.Word"
begin

section \<open>WiFiAPClient.cpp: the WiFi connection manager\<close>

text \<open>
  A shallow embedding of \<^verbatim>\<open>src/mesh/http/WiFiAPClient.cpp\<close>. The file-level
  globals become one record that every function takes and returns; each call to a
  collaborator (the WiFi stack, mDNS, the NTP client, the web and API servers, the MQTT
  client, the RTC, the debug console) is appended, in program order, to a list of
  effects. What a collaborator answers is read from a record of answers.
\<close>

subsection \<open>C strings\<close>

text \<open>
  \<^verbatim>\<open>config.network.wifi_ssid\<close> and \<^verbatim>\<open>wifi_psk\<close> are fixed-size \<^verbatim>\<open>char\<close> arrays
  holding NUL-terminated strings. A buffer is the list of its leading bytes; the bytes
  beyond the list are NUL (the arrays are zero-initialised and always terminated).
\<close>

type_synonym cbuf = "char list"

definition NUL :: char where
  "NUL = CHR 0x00"

text \<open>\<^verbatim>\<open>*p\<close> and \<^verbatim>\<open>p[0]\<close>: the first byte of the buffer.\<close>

fun deref :: "cbuf \<Rightarrow> char" where
  "deref [] = NUL"
| "deref (c # cs) = c"

text \<open>The string a \<^verbatim>\<open>const char *\<close> argument denotes: the bytes before the first NUL.\<close>

definition c_str :: "cbuf \<Rightarrow> string" where
  "c_str b = takeWhile (\<lambda>c. c \<noteq> NUL) b"

subsection \<open>Configuration (\<^verbatim>\<open>config.network\<close>)\<close>

datatype EthMode = Config_NetworkConfig_EthMode_DHCP | Config_NetworkConfig_EthMode_STATIC

record IpV4Config =
  ip :: "32 word"
  gateway :: "32 word"
  subnet :: "32 word"
  dns :: "32 word"

record NetworkConfig =
  wifi_enabled :: bool
  wifi_ssid :: cbuf
  wifi_psk :: cbuf
  eth_mode :: EthMode
  ipv4_config :: IpV4Config

subsection \<open>The WiFi stack's events\<close>

text \<open>
  The event tags of the \<^verbatim>\<open>switch\<close> in \<^verbatim>\<open>WiFiEvent\<close>, in its order, and one more tag for
  every event that falls to \<^verbatim>\<open>default\<close>. The stack's headers are not part of the
  sources; \<^verbatim>\<open>ARDUINO_EVENT_WIFI_STA_DISCONNECTED\<close>, the tag the second handler of
  \<^verbatim>\<open>initWifi\<close> is registered for, is the stack's newer name of
  \<^verbatim>\<open>SYSTEM_EVENT_STA_DISCONNECTED\<close>.
\<close>

datatype WiFiEvent_t =
    SYSTEM_EVENT_WIFI_READY
  | SYSTEM_EVENT_SCAN_DONE
  | SYSTEM_EVENT_STA_START
  | SYSTEM_EVENT_STA_STOP
  | SYSTEM_EVENT_STA_CONNECTED
  | SYSTEM_EVENT_STA_DISCONNECTED
  | SYSTEM_EVENT_STA_AUTHMODE_CHANGE
  | SYSTEM_EVENT_STA_GOT_IP
  | SYSTEM_EVENT_STA_LOST_IP
  | SYSTEM_EVENT_STA_WPS_ER_SUCCESS
  | SYSTEM_EVENT_STA_WPS_ER_FAILED
  | SYSTEM_EVENT_STA_WPS_ER_TIMEOUT
  | SYSTEM_EVENT_STA_WPS_ER_PIN
  | SYSTEM_EVENT_AP_START
  | SYSTEM_EVENT_AP_STOP
  | SYSTEM_EVENT_AP_STACONNECTED
  | SYSTEM_EVENT_AP_STADISCONNECTED
  | SYSTEM_EVENT_AP_STAIPASSIGNED
  | SYSTEM_EVENT_AP_PROBEREQRECVED
  | SYSTEM_EVENT_GOT_IP6
  | SYSTEM_EVENT_ETH_START
  | SYSTEM_EVENT_ETH_STOP
  | SYSTEM_EVENT_ETH_CONNECTED
  | SYSTEM_EVENT_ETH_DISCONNECTED
  | SYSTEM_EVENT_ETH_GOT_IP
  | SYSTEM_EVENT_OTHER

text \<open>\<^verbatim>\<open>WiFiEventInfo_t\<close>: the only member read is \<^verbatim>\<open>wifi_sta_disconnected.reason\<close>.\<close>

record WiFiEventInfo_t =
  reason :: "8 word"

subsection \<open>Effects\<close>

datatype wifi_mode_t = WIFI_MODE_NULL | WIFI_MODE_STA | WIFI_MODE_AP | WIFI_MODE_APSTA

text \<open>
  Modelled from the spec: \<^verbatim>\<open>RTC.h\<close> is not part of the sources. The spec names two
  quality tags of the clock-quality arbiter, network-time-derived and GPS-derived.
\<close>

datatype RTCQuality = RTCQualityNTP | RTCQualityGPS

text \<open>
  \<^verbatim>\<open>struct timeval\<close>. \<^verbatim>\<open>tv_sec\<close> carries the 32-bit value that
  \<^verbatim>\<open>timeClient.getEpochTime()\<close> returns.
\<close>

record timeval =
  tv_sec :: "32 word"
  tv_usec :: "32 word"

text \<open>
  One constructor for each call that leaves the module. \<^verbatim>\<open>DEBUG_MSG\<close> keeps the format
  string without its trailing newline and without its arguments.
\<close>

datatype effect =
    DEBUG_MSG string
  | Serial_print string
  | Serial_println_reason "8 word"
  | Serial_println_localIP
  | WiFi_disconnect bool bool
  | WiFi_mode wifi_mode_t
  | WiFi_begin string "string option"
  | WiFi_setHostname string
  | WiFi_onEvent_WiFiEvent
  | WiFi_onEvent_lambda WiFiEvent_t
  | WiFi_setAutoReconnect bool
  | WiFi_setSleep bool
  | WiFi_config "32 word" "32 word" "32 word" "32 word" "32 word"
  | esp_wifi_set_ps_NONE
  | createSSLCert
  | new_Periodic string
  | MDNS_begin string
  | MDNS_addService string string nat
  | timeClient_begin
  | timeClient_setUpdateInterval nat
  | timeClient_update
  | perhapsSetRTC RTCQuality timeval
  | initWebServer
  | initApiServer
  | mqtt_reconnect

subsection \<open>State\<close>

text \<open>
  Modelled from the spec: the link state is kept by the WiFi stack, which is not part of
  the sources; the module reads it through \<^verbatim>\<open>WiFi.isConnected()\<close>. The spec (3, 4.1)
  gives it three values and the transitions of \<open>linkEvent\<close> below.
\<close>

datatype LinkState = Down | Connecting | Up

text \<open>
  The globals of the file: \<^verbatim>\<open>wifiDisconnectReason\<close>, \<^verbatim>\<open>ourHost\<close>,
  \<^verbatim>\<open>APStartupComplete\<close>, \<^verbatim>\<open>needReconnect\<close>, \<^verbatim>\<open>wifiReconnect\<close> (whether the pointer
  has been set), and the stack's link state.
\<close>

record state =
  wifiDisconnectReason :: "8 word"
  ourHost :: string
  APStartupComplete :: bool
  needReconnect :: bool
  wifiReconnect :: bool
  link :: LinkState

text \<open>The initialisers of the globals; the link is Down at process start.\<close>

definition initState :: state where
  "initState = \<lparr> wifiDisconnectReason = 0, ourHost = [], APStartupComplete = False,
                 needReconnect = True, wifiReconnect = False, link = Down \<rparr>"

text \<open>
  What the collaborators answer during one call: whether the global \<^verbatim>\<open>mqtt\<close> pointer is
  set, the result of \<^verbatim>\<open>MDNS.begin\<close>, the result of \<^verbatim>\<open>timeClient.update()\<close> and the
  value of \<^verbatim>\<open>timeClient.getEpochTime()\<close>.
\<close>

record world =
  mqtt :: bool
  mdns_begin_ok :: bool
  ntp_update_ok :: bool
  ntp_epoch :: "32 word"

definition WiFi_isConnected :: "state \<Rightarrow> bool" where
  "WiFi_isConnected s = (link s = Up)"

text \<open>
  Modelled from the spec (4.1): a disconnected or address-lost event takes any state to
  Down; an address-acquired event and the start of access-point mode are the entries to
  Up; no other event moves the link.
\<close>

fun linkEvent :: "WiFiEvent_t \<Rightarrow> LinkState \<Rightarrow> LinkState" where
  "linkEvent SYSTEM_EVENT_STA_DISCONNECTED l = Down"
| "linkEvent SYSTEM_EVENT_STA_LOST_IP l = Down"
| "linkEvent SYSTEM_EVENT_STA_GOT_IP l = Up"
| "linkEvent SYSTEM_EVENT_AP_START l = Up"
| "linkEvent e l = l"

subsection \<open>\<^verbatim>\<open>reconnectWiFi\<close>\<close>

text \<open>
  The first argument of \<open>reconnectWiFi\<close> and of the handlers is the build flag
  \<^verbatim>\<open>DISABLE_NTP\<close>. The connect command moves the link from Down to Connecting
  (spec 4.1); the second \<^verbatim>\<open>WiFi.isConnected()\<close> reads the link after it. The result is
  the new state, the effects and the returned delay (\<^verbatim>\<open>int32_t\<close>).
\<close>

definition reconnectWiFi ::
  "bool \<Rightarrow> NetworkConfig \<Rightarrow> world \<Rightarrow> state \<Rightarrow> state \<times> effect list \<times> 32 word" where
  "reconnectWiFi DISABLE_NTP config w s =
     (let wifiName = wifi_ssid config;
          wifiPsw = wifi_psk config;
          (s1, out1) =
            (if wifi_enabled config \<and> needReconnect s \<and> \<not> WiFi_isConnected s then
               (let wifiPsw' = (if deref wifiPsw = NUL then None else Some (c_str wifiPsw))
                in if deref wifiName \<noteq> NUL then
                     (s\<lparr>needReconnect := False, link := Connecting\<rparr>,
                      [WiFi_disconnect False True,
                       DEBUG_MSG ''... Reconnecting to WiFi access point'',
                       WiFi_mode WIFI_MODE_STA,
                       WiFi_begin (c_str wifiName) wifiPsw'])
                   else (s, []))
             else (s, []));
          out2 =
            (if \<not> DISABLE_NTP \<and> WiFi_isConnected s1 then
               DEBUG_MSG ''Updating NTP time'' # timeClient_update #
               (if ntp_update_ok w then
                  [DEBUG_MSG ''NTP Request Success - Setting RTCQualityNTP if needed'',
                   perhapsSetRTC RTCQualityNTP \<lparr> tv_sec = ntp_epoch w, tv_usec = 0 \<rparr>]
                else [DEBUG_MSG ''NTP Update failed''])
             else [])
      in (s1, out1 @ out2, 43200 * 1000))"

subsection \<open>\<^verbatim>\<open>isWifiAvailable\<close>, \<^verbatim>\<open>deinitWifi\<close>, \<^verbatim>\<open>getWifiDisconnectReason\<close>\<close>

definition isWifiAvailable :: "NetworkConfig \<Rightarrow> bool" where
  "isWifiAvailable config =
     (if wifi_enabled config \<and> deref (wifi_ssid config) \<noteq> NUL then True else False)"

definition deinitWifi :: "NetworkConfig \<Rightarrow> effect list" where
  "deinitWifi config =
     DEBUG_MSG ''WiFi deinit'' #
     (if isWifiAvailable config then [WiFi_mode WIFI_MODE_NULL, DEBUG_MSG ''WiFi Turned Off'']
      else [])"

definition getWifiDisconnectReason :: "state \<Rightarrow> 8 word" where
  "getWifiDisconnectReason s = wifiDisconnectReason s"

subsection \<open>\<^verbatim>\<open>onNetworkConnected\<close>\<close>

definition onNetworkConnected :: "bool \<Rightarrow> world \<Rightarrow> state \<Rightarrow> state \<times> effect list" where
  "onNetworkConnected DISABLE_NTP w s =
     (let (s1, out1) =
            (if \<not> APStartupComplete s then
               (s\<lparr>APStartupComplete := True\<rparr>,
                [DEBUG_MSG ''... Starting network services'', MDNS_begin ''Meshtastic''] @
                (if \<not> mdns_begin_ok w then [DEBUG_MSG ''Error setting up MDNS responder!'']
                 else [DEBUG_MSG ''mDNS responder started'',
                       DEBUG_MSG ''mDNS Host: Meshtastic.local'',
                       MDNS_addService ''http'' ''tcp'' 80,
                       MDNS_addService ''https'' ''tcp'' 443]) @
                (if \<not> DISABLE_NTP then
                   [DEBUG_MSG ''Starting NTP time client'', timeClient_begin,
                    timeClient_setUpdateInterval (60 * 60)]
                 else []) @
                [initWebServer, initApiServer])
             else (s, []))
      in (s1, out1 @ (if mqtt w then [mqtt_reconnect] else [])))"

subsection \<open>\<^verbatim>\<open>initWifi\<close>\<close>

text \<open>\<^verbatim>\<open>%02x\<close> of a byte: two lower-case hexadecimal digits.\<close>

definition hexdigit :: "nat \<Rightarrow> char" where
  "hexdigit n = ''0123456789abcdef'' ! (n mod 16)"

definition hex2 :: "8 word \<Rightarrow> string" where
  "hex2 b = [hexdigit (unat b div 16), hexdigit (unat b mod 16)]"

text \<open>
  \<open>dmac\<close> is the array that \<^verbatim>\<open>getMacAddr\<close> fills. The local \<^verbatim>\<open>wifiPsw\<close> is set to
  \<^verbatim>\<open>NULL\<close> for an empty secret and not read again: \<^verbatim>\<open>initWifi\<close> never calls
  \<^verbatim>\<open>WiFi.begin\<close>. The result is the returned flag, the new state and the effects.
\<close>

definition initWifi ::
  "NetworkConfig \<Rightarrow> (nat \<Rightarrow> 8 word) \<Rightarrow> state \<Rightarrow> bool \<times> state \<times> effect list" where
  "initWifi config dmac s =
     (if wifi_enabled config \<and> deref (wifi_ssid config) \<noteq> NUL then
        (let wifiName = wifi_ssid config;
             wifiPsw = wifi_psk config;
             wifiPsw' = (if deref wifiPsw = NUL then None else Some (c_str wifiPsw))
         in if deref wifiName \<noteq> NUL then
              (let host = ''Meshtastic-'' @ hex2 (dmac 4) @ hex2 (dmac 5)
               in (True, s\<lparr>ourHost := host, wifiReconnect := True\<rparr>,
                   [createSSLCert, WiFi_mode WIFI_MODE_STA, WiFi_setHostname host,
                    WiFi_onEvent_WiFiEvent, WiFi_setAutoReconnect True, WiFi_setSleep False] @
                   (if eth_mode config = Config_NetworkConfig_EthMode_STATIC
                       \<and> ip (ipv4_config config) \<noteq> 0 then
                      [WiFi_config (ip (ipv4_config config)) (gateway (ipv4_config config))
                         (subnet (ipv4_config config)) (dns (ipv4_config config))
                         (dns (ipv4_config config))]
                    else []) @
                   [esp_wifi_set_ps_NONE, WiFi_onEvent_lambda SYSTEM_EVENT_STA_DISCONNECTED,
                    DEBUG_MSG ''JOINING WIFI soon: ssid=%s'', new_Periodic ''WifiConnect'']))
            else (True, s, [createSSLCert]))
      else (False, s, [DEBUG_MSG ''Not using WIFI'']))"

text \<open>The handler that \<^verbatim>\<open>initWifi\<close> registers for the disconnected event (the
  printed text without its leading newline).\<close>

definition onDisconnected :: "WiFiEventInfo_t \<Rightarrow> state \<Rightarrow> state \<times> effect list" where
  "onDisconnected info s =
     (s\<lparr>wifiDisconnectReason := reason info\<rparr>,
      [Serial_print ''WiFi lost connection. Reason: '', Serial_println_reason (reason info)])"

subsection \<open>\<^verbatim>\<open>WiFiEvent\<close>\<close>

definition event_banner :: effect where
  "event_banner = DEBUG_MSG ''************ [WiFi-event] event: %d ************''"

fun WiFiEvent :: "bool \<Rightarrow> world \<Rightarrow> WiFiEvent_t \<Rightarrow> state \<Rightarrow> state \<times> effect list" where
  "WiFiEvent n w SYSTEM_EVENT_WIFI_READY s =
     (s, [event_banner, DEBUG_MSG ''WiFi interface ready''])"
| "WiFiEvent n w SYSTEM_EVENT_SCAN_DONE s =
     (s, [event_banner, DEBUG_MSG ''Completed scan for access points''])"
| "WiFiEvent n w SYSTEM_EVENT_STA_START s =
     (s, [event_banner, DEBUG_MSG ''WiFi station started''])"
| "WiFiEvent n w SYSTEM_EVENT_STA_STOP s =
     (s, [event_banner, DEBUG_MSG ''WiFi station stopped''])"
| "WiFiEvent n w SYSTEM_EVENT_STA_CONNECTED s =
     (s, [event_banner, DEBUG_MSG ''Connected to access point''])"
| "WiFiEvent n w SYSTEM_EVENT_STA_DISCONNECTED s =
     (s\<lparr>needReconnect := True\<rparr>,
      [event_banner, DEBUG_MSG ''Disconnected from WiFi access point''])"
| "WiFiEvent n w SYSTEM_EVENT_STA_AUTHMODE_CHANGE s =
     (s, [event_banner, DEBUG_MSG ''Authentication mode of access point has changed''])"
| "WiFiEvent n w SYSTEM_EVENT_STA_GOT_IP s =
     (let (s1, out) = onNetworkConnected n w s
      in (s1, [event_banner, DEBUG_MSG ''Obtained IP address: '', Serial_println_localIP] @ out))"
| "WiFiEvent n w SYSTEM_EVENT_STA_LOST_IP s =
     (s\<lparr>needReconnect := True\<rparr>,
      [event_banner, DEBUG_MSG ''Lost IP address and IP address is reset to 0''])"
| "WiFiEvent n w SYSTEM_EVENT_STA_WPS_ER_SUCCESS s =
     (s, [event_banner,
          DEBUG_MSG ''WiFi Protected Setup (WPS): succeeded in enrollee mode''])"
| "WiFiEvent n w SYSTEM_EVENT_STA_WPS_ER_FAILED s =
     (s, [event_banner, DEBUG_MSG ''WiFi Protected Setup (WPS): failed in enrollee mode''])"
| "WiFiEvent n w SYSTEM_EVENT_STA_WPS_ER_TIMEOUT s =
     (s, [event_banner, DEBUG_MSG ''WiFi Protected Setup (WPS): timeout in enrollee mode''])"
| "WiFiEvent n w SYSTEM_EVENT_STA_WPS_ER_PIN s =
     (s, [event_banner, DEBUG_MSG ''WiFi Protected Setup (WPS): pin code in enrollee mode''])"
| "WiFiEvent n w SYSTEM_EVENT_AP_START s =
     (let (s1, out) = onNetworkConnected n w s
      in (s1, [event_banner, DEBUG_MSG ''WiFi access point started''] @ out))"
| "WiFiEvent n w SYSTEM_EVENT_AP_STOP s =
     (s, [event_banner, DEBUG_MSG ''WiFi access point stopped''])"
| "WiFiEvent n w SYSTEM_EVENT_AP_STACONNECTED s =
     (s, [event_banner, DEBUG_MSG ''Client connected''])"
| "WiFiEvent n w SYSTEM_EVENT_AP_STADISCONNECTED s =
     (s, [event_banner, DEBUG_MSG ''Client disconnected''])"
| "WiFiEvent n w SYSTEM_EVENT_AP_STAIPASSIGNED s =
     (s, [event_banner, DEBUG_MSG ''Assigned IP address to client''])"
| "WiFiEvent n w SYSTEM_EVENT_AP_PROBEREQRECVED s =
     (s, [event_banner, DEBUG_MSG ''Received probe request''])"
| "WiFiEvent n w SYSTEM_EVENT_GOT_IP6 s =
     (s, [event_banner, DEBUG_MSG ''IPv6 is preferred''])"
| "WiFiEvent n w SYSTEM_EVENT_ETH_START s =
     (s, [event_banner, DEBUG_MSG ''Ethernet started''])"
| "WiFiEvent n w SYSTEM_EVENT_ETH_STOP s =
     (s, [event_banner, DEBUG_MSG ''Ethernet stopped''])"
| "WiFiEvent n w SYSTEM_EVENT_ETH_CONNECTED s =
     (s, [event_banner, DEBUG_MSG ''Ethernet connected''])"
| "WiFiEvent n w SYSTEM_EVENT_ETH_DISCONNECTED s =
     (s, [event_banner, DEBUG_MSG ''Ethernet disconnected''])"
| "WiFiEvent n w SYSTEM_EVENT_ETH_GOT_IP s =
     (s, [event_banner, DEBUG_MSG ''Obtained IP address (SYSTEM_EVENT_ETH_GOT_IP)''])"
| "WiFiEvent n w SYSTEM_EVENT_OTHER s = (s, [event_banner])"

subsection \<open>The running system\<close>

text \<open>
  Delivery of one link event. The stack moves its link state, then calls the handlers in
  the order \<^verbatim>\<open>initWifi\<close> registered them: \<^verbatim>\<open>WiFiEvent\<close> for every event, then the
  second handler for the disconnected event only.
\<close>

definition onEvent ::
  "bool \<Rightarrow> world \<Rightarrow> WiFiEvent_t \<Rightarrow> WiFiEventInfo_t \<Rightarrow> state \<Rightarrow> state \<times> effect list" where
  "onEvent n w event info s =
     (let (s1, out1) = WiFiEvent n w event (s\<lparr>link := linkEvent event (link s)\<rparr>);
          (s2, out2) = (if event = SYSTEM_EVENT_STA_DISCONNECTED then onDisconnected info s1
                        else (s1, []))
      in (s2, out1 @ out2))"

text \<open>What reaches the module: a tick of the periodic task or a link event.\<close>

datatype stimulus = Tick | Event WiFiEvent_t WiFiEventInfo_t

fun step :: "bool \<Rightarrow> NetworkConfig \<Rightarrow> world \<times> stimulus \<Rightarrow> state \<Rightarrow> state \<times> effect list" where
  "step n config (w, Tick) s = (let (s1, out, delay) = reconnectWiFi n config w s in (s1, out))"
| "step n config (w, Event event info) s = onEvent n w event info s"

text \<open>A run: the stimuli in order, each with the answers of the collaborators.\<close>

fun exec ::
  "bool \<Rightarrow> NetworkConfig \<Rightarrow> (world \<times> stimulus) list \<Rightarrow> state \<Rightarrow> state \<times> effect list" where
  "exec n config [] s = (s, [])"
| "exec n config (x # xs) s =
     (let (s1, out1) = step n config x s;
          (s2, out2) = exec n config xs s1
      in (s2, out1 @ out2))"

text \<open>The two events that report that the network became usable.\<close>

fun usable :: "world \<times> stimulus \<Rightarrow> bool" where
  "usable (w, Event SYSTEM_EVENT_STA_GOT_IP info) = True"
| "usable (w, Event SYSTEM_EVENT_AP_START info) = True"
| "usable x = False"

text \<open>
  Process start: the initial globals after \<^verbatim>\<open>initWifi\<close> has run. Link events and ticks
  reach the module only when \<^verbatim>\<open>initWifi\<close> has registered the handlers and created the
  periodic task.
\<close>

definition startState :: "NetworkConfig \<Rightarrow> (nat \<Rightarrow> 8 word) \<Rightarrow> state" where
  "startState config dmac = fst (snd (initWifi config dmac initState))"

subsection \<open>Reading the effects\<close>

text \<open>The connect commands (\<^verbatim>\<open>WiFi.begin\<close>: name and secret, \<open>None\<close> for
  \<^verbatim>\<open>NULL\<close>) among the effects, in order.\<close>

fun connect_of :: "effect \<Rightarrow> (string \<times> string option) list" where
  "connect_of (WiFi_begin name psw) = [(name, psw)]"
| "connect_of e = []"

definition connects :: "effect list \<Rightarrow> (string \<times> string option) list" where
  "connects out = concat (map connect_of out)"

text \<open>The time samples submitted to the clock-quality arbiter (\<^verbatim>\<open>perhapsSetRTC\<close>).\<close>

fun sample_of :: "effect \<Rightarrow> (RTCQuality \<times> timeval) list" where
  "sample_of (perhapsSetRTC q tv) = [(q, tv)]"
| "sample_of e = []"

definition rtc_samples :: "effect list \<Rightarrow> (RTCQuality \<times> timeval) list" where
  "rtc_samples out = concat (map sample_of out)"

text \<open>The effects that only write to the console.\<close>

fun is_log :: "effect \<Rightarrow> bool" where
  "is_log (DEBUG_MSG m) = True"
| "is_log (Serial_print m) = True"
| "is_log (Serial_println_reason r) = True"
| "is_log Serial_println_localIP = True"
| "is_log e = False"

text \<open>The calls that start a dependent service: the mDNS responder, the NTP client, the
  web server and the API server.\<close>

fun is_service :: "effect \<Rightarrow> bool" where
  "is_service (MDNS_begin host) = True"
| "is_service timeClient_begin = True"
| "is_service initWebServer = True"
| "is_service initApiServer = True"
| "is_service e = False"

definition services :: "effect list \<Rightarrow> effect list" where
  "services out = filter is_service out"

subsection \<open>Scenario data\<close>

text \<open>The configuration of scenario 1 of the spec, and answers, an event record and a
  hardware address to run it with.\<close>

definition cfgMyNet :: NetworkConfig where
  "cfgMyNet = \<lparr> wifi_enabled = True, wifi_ssid = ''MyNet'', wifi_psk = ''secret'',
                eth_mode = Config_NetworkConfig_EthMode_DHCP,
                ipv4_config = \<lparr> ip = 0, gateway = 0, subnet = 0, dns = 0 \<rparr> \<rparr>"

definition world0 :: world where
  "world0 = \<lparr> mqtt = True, mdns_begin_ok = True, ntp_update_ok = True,
              ntp_epoch = 1700000000 \<rparr>"

definition info8 :: WiFiEventInfo_t where
  "info8 = \<lparr> reason = 8 \<rparr>"

definition mac0 :: "nat \<Rightarrow> 8 word" where
  "mac0 i = (if i = 4 then 0xab else 0x0c)"

text \<open>
  Two runs from process start. In \<open>traceA\<close> access-point mode starts before any tick. In
  \<open>traceB\<close> the first tick connects, the address is acquired, the link is lost with
  reason 8, and the stack, set to reconnect by itself (\<^verbatim>\<open>WiFi.setAutoReconnect(true)\<close>),
  acquires an address again before the next tick.
\<close>

definition traceA :: "(world \<times> stimulus) list" where
  "traceA = [(world0, Event SYSTEM_EVENT_AP_START info8)]"

definition traceB :: "(world \<times> stimulus) list" where
  "traceB = [(world0, Tick), (world0, Event SYSTEM_EVENT_STA_GOT_IP info8),
             (world0, Event SYSTEM_EVENT_STA_DISCONNECTED info8),
             (world0, Event SYSTEM_EVENT_STA_GOT_IP info8)]"

section \<open>Properties\<close>

subsection \<open>Auxiliary facts\<close>

lemma deref_NUL_iff: "deref b = NUL \<longleftrightarrow> c_str b = []"
  by (cases b) (simp_all add: c_str_def)

lemma connects_append [simp]: "connects (a @ b) = connects a @ connects b"
  by (simp add: connects_def)

lemma connects_Nil [simp]: "connects [] = []"
  by (simp add: connects_def)

lemma connects_Cons [simp]: "connects (e # out) = connect_of e @ connects out"
  by (simp add: connects_def)

lemma onNetworkConnected_connects: "connects (snd (onNetworkConnected n w s)) = []"
  by (simp add: onNetworkConnected_def Let_def case_prod_beta)

lemma WiFiEvent_connects: "connects (snd (WiFiEvent n w e s)) = []"
  using onNetworkConnected_connects [of n w s]
  by (cases e) (simp_all add: event_banner_def case_prod_beta)

lemma onEvent_connects: "connects (snd (onEvent n w e info s)) = []"
  using WiFiEvent_connects [of n w e "s\<lparr>link := linkEvent e (link s)\<rparr>"]
  by (simp add: onEvent_def onDisconnected_def Let_def case_prod_beta)

lemma reconnectWiFi_connects:
  "connects (fst (snd (reconnectWiFi n config w s))) =
     (if wifi_enabled config \<and> needReconnect s \<and> link s \<noteq> Up \<and> c_str (wifi_ssid config) \<noteq> []
      then [(c_str (wifi_ssid config),
             if c_str (wifi_psk config) = [] then None else Some (c_str (wifi_psk config)))]
      else [])"
  by (simp add: reconnectWiFi_def WiFi_isConnected_def deref_NUL_iff Let_def)

lemma step_connects:
  "set (connects (snd (step n config x s))) \<subseteq>
     (if wifi_enabled config \<and> c_str (wifi_ssid config) \<noteq> []
      then {(c_str (wifi_ssid config),
             if c_str (wifi_psk config) = [] then None else Some (c_str (wifi_psk config)))}
      else {})"
proof (cases x)
  case (Pair w st)
  show ?thesis
  proof (cases st)
    case Tick
    with Pair reconnectWiFi_connects [of n config w s] show ?thesis
      by (auto simp add: case_prod_beta)
  next
    case (Event e info)
    with Pair onEvent_connects [of n w e info s] show ?thesis by simp
  qed
qed

lemma exec_connects:
  "set (connects (snd (exec n config tr s))) \<subseteq>
     (if wifi_enabled config \<and> c_str (wifi_ssid config) \<noteq> []
      then {(c_str (wifi_ssid config),
             if c_str (wifi_psk config) = [] then None else Some (c_str (wifi_psk config)))}
      else {})"
proof (induction tr arbitrary: s)
  case Nil
  show ?case by simp
next
  case (Cons x tr)
  obtain s1 out1 where st: "step n config x s = (s1, out1)" by (cases "step n config x s")
  obtain s2 out2 where ex: "exec n config tr s1 = (s2, out2)" by (cases "exec n config tr s1")
  from step_connects [of n config x s] st Cons.IH [of s1] ex show ?case
    by (simp split: if_splits)
qed

lemma initWifi_connects: "connects (snd (snd (initWifi config dmac s))) = []"
  by (simp add: initWifi_def Let_def)

lemma reconnectWiFi_frame:
  "wifiDisconnectReason (fst (reconnectWiFi n config w s)) = wifiDisconnectReason s"
  "APStartupComplete (fst (reconnectWiFi n config w s)) = APStartupComplete s"
  by (simp_all add: reconnectWiFi_def Let_def)

lemma onNetworkConnected_frame:
  "wifiDisconnectReason (fst (onNetworkConnected n w s)) = wifiDisconnectReason s"
  "needReconnect (fst (onNetworkConnected n w s)) = needReconnect s"
  "link (fst (onNetworkConnected n w s)) = link s"
  by (simp_all add: onNetworkConnected_def Let_def)

lemma WiFiEvent_frame:
  "wifiDisconnectReason (fst (WiFiEvent n w e s)) = wifiDisconnectReason s"
  "link (fst (WiFiEvent n w e s)) = link s"
  by (cases e; simp add: case_prod_beta onNetworkConnected_frame)+

lemma onEvent_reason:
  "wifiDisconnectReason (fst (onEvent n w e info s)) =
     (if e = SYSTEM_EVENT_STA_DISCONNECTED then reason info else wifiDisconnectReason s)"
  by (simp add: onEvent_def onDisconnected_def Let_def case_prod_beta WiFiEvent_frame)

lemma onEvent_link: "link (fst (onEvent n w e info s)) = linkEvent e (link s)"
  by (simp add: onEvent_def onDisconnected_def Let_def case_prod_beta WiFiEvent_frame)

lemma exec_ticks_reason:
  "wifiDisconnectReason (fst (exec n config (map (\<lambda>w. (w, Tick)) ws) s)) = wifiDisconnectReason s"
  by (induction ws arbitrary: s) (simp_all add: case_prod_beta reconnectWiFi_frame)

lemma exec_append:
  "fst (exec n config (a @ b) s) = fst (exec n config b (fst (exec n config a s)))"
  "snd (exec n config (a @ b) s) =
     snd (exec n config a s) @ snd (exec n config b (fst (exec n config a s)))"
  by (induction a arbitrary: s) (simp_all add: case_prod_beta)

lemma exec_Cons:
  "fst (exec n config (x # xs) s) = fst (exec n config xs (fst (step n config x s)))"
  "snd (exec n config (x # xs) s) =
     snd (step n config x s) @ snd (exec n config xs (fst (step n config x s)))"
  by (simp_all add: case_prod_beta)

lemma services_append [simp]: "services (a @ b) = services a @ services b"
  by (simp add: services_def)

lemma services_Nil [simp]: "services [] = []"
  by (simp add: services_def)

lemma services_Cons [simp]:
  "services (e # out) = (if is_service e then e # services out else services out)"
  by (simp add: services_def)

lemma reconnectWiFi_services: "services (fst (snd (reconnectWiFi n config w s))) = []"
  by (simp add: reconnectWiFi_def Let_def)

lemma onNetworkConnected_services:
  "services (snd (onNetworkConnected n w s)) =
     (if APStartupComplete s then []
      else MDNS_begin ''Meshtastic'' # (if n then [] else [timeClient_begin])
           @ [initWebServer, initApiServer])"
  "APStartupComplete (fst (onNetworkConnected n w s))"
  by (simp_all add: onNetworkConnected_def Let_def)

lemma WiFiEvent_services:
  "services (snd (WiFiEvent n w e s)) =
     (if e \<in> {SYSTEM_EVENT_STA_GOT_IP, SYSTEM_EVENT_AP_START} \<and> \<not> APStartupComplete s
      then MDNS_begin ''Meshtastic'' # (if n then [] else [timeClient_begin])
           @ [initWebServer, initApiServer]
      else [])"
  by (cases e) (simp_all add: case_prod_beta onNetworkConnected_services event_banner_def)

lemma WiFiEvent_startup:
  "APStartupComplete (fst (WiFiEvent n w e s)) \<longleftrightarrow>
     APStartupComplete s \<or> e \<in> {SYSTEM_EVENT_STA_GOT_IP, SYSTEM_EVENT_AP_START}"
  by (cases e) (simp_all add: case_prod_beta onNetworkConnected_services)

lemma usable_Event:
  "usable (w, Event e info) \<longleftrightarrow> e \<in> {SYSTEM_EVENT_STA_GOT_IP, SYSTEM_EVENT_AP_START}"
  by (cases e) simp_all

lemma usable_Tick: "\<not> usable (w, Tick)"
  by simp

lemma step_services:
  "services (snd (step n config x s)) =
     (if usable x \<and> \<not> APStartupComplete s
      then MDNS_begin ''Meshtastic'' # (if n then [] else [timeClient_begin])
           @ [initWebServer, initApiServer]
      else [])"
  "APStartupComplete (fst (step n config x s)) \<longleftrightarrow> APStartupComplete s \<or> usable x"
proof -
  obtain w st where x: "x = (w, st)" by (cases x)
  show "services (snd (step n config x s)) =
     (if usable x \<and> \<not> APStartupComplete s
      then MDNS_begin ''Meshtastic'' # (if n then [] else [timeClient_begin])
           @ [initWebServer, initApiServer]
      else [])"
  proof (cases st)
    case Tick
    with x show ?thesis by (simp add: case_prod_beta reconnectWiFi_services)
  next
    case (Event e info)
    have "services (snd (onEvent n w e info s)) =
            services (snd (WiFiEvent n w e (s\<lparr>link := linkEvent e (link s)\<rparr>)))"
      by (simp add: onEvent_def onDisconnected_def Let_def case_prod_beta)
    with x Event show ?thesis
      by (simp add: WiFiEvent_services usable_Event del: usable.simps)
  qed
  show "APStartupComplete (fst (step n config x s)) \<longleftrightarrow> APStartupComplete s \<or> usable x"
  proof (cases st)
    case Tick
    with x show ?thesis by (simp add: case_prod_beta reconnectWiFi_frame)
  next
    case (Event e info)
    have "APStartupComplete (fst (onEvent n w e info s)) =
            APStartupComplete (fst (WiFiEvent n w e (s\<lparr>link := linkEvent e (link s)\<rparr>)))"
      by (simp add: onEvent_def onDisconnected_def Let_def case_prod_beta)
    with x Event show ?thesis
      by (simp add: WiFiEvent_startup usable_Event del: usable.simps)
  qed
qed

lemma exec_services_quiet:
  "APStartupComplete s \<or> (\<forall>x\<in>set tr. \<not> usable x) \<Longrightarrow>
     services (snd (exec n config tr s)) = []
     \<and> (APStartupComplete (fst (exec n config tr s)) \<longleftrightarrow> APStartupComplete s)"
proof (induction tr arbitrary: s)
  case Nil
  show ?case by simp
next
  case (Cons x tr)
  have a: "services (snd (step n config x s)) = []"
    using Cons.prems by (auto simp add: step_services)
  have b: "APStartupComplete (fst (step n config x s)) \<longleftrightarrow> APStartupComplete s"
    using Cons.prems by (auto simp add: step_services)
  have "APStartupComplete (fst (step n config x s)) \<or> (\<forall>y\<in>set tr. \<not> usable y)"
    using Cons.prems b by auto
  from Cons.IH [OF this] a b show ?case
    by (simp add: exec_Cons del: exec.simps)
qed

lemma onNetworkConnected_notify:
  "count_list (snd (onNetworkConnected n w s)) mqtt_reconnect = (if mqtt w then 1 else 0)"
  "mqtt w \<Longrightarrow> last (snd (onNetworkConnected n w s)) = mqtt_reconnect"
  "APStartupComplete s \<Longrightarrow>
     snd (onNetworkConnected n w s) = (if mqtt w then [mqtt_reconnect] else [])"
  by (simp_all add: onNetworkConnected_def Let_def)

lemma WiFiEvent_notify:
  "count_list (snd (WiFiEvent n w e s)) mqtt_reconnect =
     (if e \<in> {SYSTEM_EVENT_STA_GOT_IP, SYSTEM_EVENT_AP_START} \<and> mqtt w then 1 else 0)"
  by (cases e) (simp_all add: case_prod_beta onNetworkConnected_notify event_banner_def)

lemma onEvent_notify:
  "count_list (snd (onEvent n w e info s)) mqtt_reconnect =
     (if e \<in> {SYSTEM_EVENT_STA_GOT_IP, SYSTEM_EVENT_AP_START} \<and> mqtt w then 1 else 0)"
  by (simp add: onEvent_def onDisconnected_def Let_def case_prod_beta WiFiEvent_notify)

lemma reconnectWiFi_notify:
  "count_list (fst (snd (reconnectWiFi n config w s))) mqtt_reconnect = 0"
  by (simp add: reconnectWiFi_def Let_def)

lemma step_notify:
  "count_list (snd (step n config x s)) mqtt_reconnect =
     (if usable x \<and> mqtt (fst x) then 1 else 0)"
proof -
  obtain w st where x: "x = (w, st)" by (cases x)
  show ?thesis
  proof (cases st)
    case Tick
    with x show ?thesis by (simp add: case_prod_beta reconnectWiFi_notify)
  next
    case (Event e info)
    with x show ?thesis by (simp add: onEvent_notify usable_Event del: usable.simps)
  qed
qed

lemma exec_notify:
  "\<forall>x\<in>set tr. mqtt (fst x) \<Longrightarrow>
     count_list (snd (exec n config tr s)) mqtt_reconnect = length (filter usable tr)"
proof (induction tr arbitrary: s)
  case Nil
  show ?case by simp
next
  case (Cons x tr)
  from Cons.prems have "\<forall>y\<in>set tr. mqtt (fst y)" and "mqtt (fst x)" by simp_all
  with Cons.IH [of "fst (step n config x s)"] show ?case
    by (simp add: exec_Cons step_notify del: exec.simps)
qed

lemma onEvent_usable:
  "snd (onEvent n w SYSTEM_EVENT_STA_GOT_IP info s) =
     [event_banner, DEBUG_MSG ''Obtained IP address: '', Serial_println_localIP]
     @ snd (onNetworkConnected n w (s\<lparr>link := Up\<rparr>))"
  "snd (onEvent n w SYSTEM_EVENT_AP_START info s) =
     [event_banner, DEBUG_MSG ''WiFi access point started'']
     @ snd (onNetworkConnected n w (s\<lparr>link := Up\<rparr>))"
  "fst (onEvent n w SYSTEM_EVENT_STA_GOT_IP info s) = fst (onNetworkConnected n w (s\<lparr>link := Up\<rparr>))"
  "fst (onEvent n w SYSTEM_EVENT_AP_START info s) = fst (onNetworkConnected n w (s\<lparr>link := Up\<rparr>))"
  by (simp_all add: onEvent_def Let_def case_prod_beta)

lemma exec_Nil: "fst (exec n config [] s) = s" "snd (exec n config [] s) = []"
  by simp_all

lemma WiFiEvent_need:
  "needReconnect (fst (WiFiEvent n w e s)) \<longleftrightarrow>
     needReconnect s \<or> e \<in> {SYSTEM_EVENT_STA_DISCONNECTED, SYSTEM_EVENT_STA_LOST_IP}"
  by (cases e) (simp_all add: case_prod_beta onNetworkConnected_frame)

lemma onEvent_need:
  "needReconnect (fst (onEvent n w e info s)) \<longleftrightarrow>
     needReconnect s \<or> e \<in> {SYSTEM_EVENT_STA_DISCONNECTED, SYSTEM_EVENT_STA_LOST_IP}"
  by (simp add: onEvent_def onDisconnected_def Let_def case_prod_beta WiFiEvent_need)

lemma linkEvent_cases:
  "linkEvent e l =
     (if e \<in> {SYSTEM_EVENT_STA_DISCONNECTED, SYSTEM_EVENT_STA_LOST_IP} then Down
      else if e \<in> {SYSTEM_EVENT_STA_GOT_IP, SYSTEM_EVENT_AP_START} then Up else l)"
  by (cases e) simp_all

lemma reconnectWiFi_state:
  "fst (reconnectWiFi n config w s) =
     (if connects (fst (snd (reconnectWiFi n config w s))) = [] then s
      else s\<lparr>needReconnect := False, link := Connecting\<rparr>)"
  by (simp add: reconnectWiFi_def WiFi_isConnected_def Let_def)

lemma step_intent:
  assumes "link s \<noteq> Up \<longrightarrow> (needReconnect s \<longleftrightarrow> link s = Down)"
  shows "link (fst (step n config x s)) \<noteq> Up \<longrightarrow>
    (needReconnect (fst (step n config x s)) \<longleftrightarrow> link (fst (step n config x s)) = Down)"
proof -
  obtain w st where x: "x = (w, st)" by (cases x)
  show ?thesis
  proof (cases st)
    case Tick
    have "fst (step n config x s) = fst (reconnectWiFi n config w s)"
      using x Tick by (simp add: case_prod_beta)
    moreover have "connects (fst (snd (reconnectWiFi n config w s))) \<noteq> [] \<Longrightarrow> link s \<noteq> Up"
      by (simp add: reconnectWiFi_connects split: if_splits)
    ultimately show ?thesis
      using assms reconnectWiFi_state [of n config w s] by auto
  next
    case (Event e info)
    with x assms show ?thesis
      by (auto simp add: onEvent_need onEvent_link linkEvent_cases)
  qed
qed

lemma exec_intent:
  assumes "link s \<noteq> Up \<longrightarrow> (needReconnect s \<longleftrightarrow> link s = Down)"
  shows "link (fst (exec n config tr s)) \<noteq> Up \<longrightarrow>
    (needReconnect (fst (exec n config tr s)) \<longleftrightarrow> link (fst (exec n config tr s)) = Down)"
  using assms
proof (induction tr arbitrary: s)
  case Nil
  then show ?case by simp
next
  case (Cons x tr)
  from Cons.IH [OF step_intent [OF Cons.prems, of n config x]] show ?case
    by (simp add: exec_Cons del: exec.simps)
qed

lemma startState_intent: "needReconnect (startState config dmac) \<and> link (startState config dmac) = Down"
  by (simp add: startState_def initWifi_def initState_def Let_def)

lemma exec_notify_gen:
  "count_list (snd (exec n config tr s)) mqtt_reconnect =
     length (filter (\<lambda>x. usable x \<and> mqtt (fst x)) tr)"
proof (induction tr arbitrary: s)
  case Nil
  show ?case by simp
next
  case (Cons x tr)
  from Cons.IH [of "fst (step n config x s)"] show ?case
    by (simp add: exec_Cons step_notify del: exec.simps)
qed

subsection \<open>The availability predicate\<close>

text \<open>
  C6. \<open>isWifiAvailable\<close> is true exactly when the enabled flag is set and the configured
  network name is not the empty string; with an empty name it is false whatever the
  flag.
\<close>

theorem isWifiAvailable_spec:
  "(isWifiAvailable config \<longleftrightarrow> wifi_enabled config \<and> c_str (wifi_ssid config) \<noteq> [])
   \<and> (c_str (wifi_ssid config) = [] \<longrightarrow> isWifiAvailable config = False)"
  by (simp add: isWifiAvailable_def deref_NUL_iff)

theorem isWifiAvailable_spec_witness:
  "c_str (wifi_ssid (cfgMyNet\<lparr>wifi_ssid := []\<rparr>)) = []
   \<and> wifi_enabled (cfgMyNet\<lparr>wifi_ssid := []\<rparr>)
   \<and> isWifiAvailable (cfgMyNet\<lparr>wifi_ssid := []\<rparr>) = False
   \<and> isWifiAvailable cfgMyNet"
  using isWifiAvailable_spec [of "cfgMyNet\<lparr>wifi_ssid := []\<rparr>"] isWifiAvailable_spec [of cfgMyNet]
  by (simp add: cfgMyNet_def c_str_def NUL_def)

subsection \<open>The scheduler tick\<close>

text \<open>
  C9. Every call of \<open>reconnectWiFi\<close> returns the same delay, 43200 * 1000 milliseconds
  (12 hours), whatever the build flag, the configuration, the answers of the
  collaborators and the state.
\<close>

theorem reconnectWiFi_delay:
  "snd (snd (reconnectWiFi n config w s)) = 43200000
   \<and> sint (snd (snd (reconnectWiFi n config w s))) = 12 * 60 * 60 * 1000"
  by (simp add: reconnectWiFi_def Let_def split: prod.splits)

text \<open>
  C3. On a tick with the network enabled, \<open>needReconnect\<close> set, the link not Up and a
  non-empty network name, \<open>needReconnect\<close> is cleared and the effects are exactly the
  disconnect (clearing the stored credentials), the station mode and the connect with the
  configured name and secret. With the network disabled or the name empty, no tick and
  no run issues a connect command, whatever \<open>needReconnect\<close> is.
\<close>

theorem reconnectWiFi_connect_rule:
  "(wifi_enabled config \<and> needReconnect s \<and> link s \<noteq> Up \<and> c_str (wifi_ssid config) \<noteq> [] \<longrightarrow>
      needReconnect (fst (reconnectWiFi n config w s)) = False
      \<and> fst (snd (reconnectWiFi n config w s)) =
          [WiFi_disconnect False True,
           DEBUG_MSG ''... Reconnecting to WiFi access point'',
           WiFi_mode WIFI_MODE_STA,
           WiFi_begin (c_str (wifi_ssid config))
             (if c_str (wifi_psk config) = [] then None else Some (c_str (wifi_psk config)))])
   \<and> (\<not> wifi_enabled config \<or> c_str (wifi_ssid config) = [] \<longrightarrow>
      connects (fst (snd (reconnectWiFi n config w s))) = []
      \<and> connects (snd (exec n config tr s)) = [])"
proof -
  have "\<not> wifi_enabled config \<or> c_str (wifi_ssid config) = [] \<Longrightarrow>
        connects (snd (exec n config tr s)) = []"
    using exec_connects [of n config tr s] by (auto split: if_splits)
  moreover have "\<not> wifi_enabled config \<or> c_str (wifi_ssid config) = [] \<Longrightarrow>
        connects (fst (snd (reconnectWiFi n config w s))) = []"
    using reconnectWiFi_connects [of n config w s] by (auto split: if_splits)
  moreover have "wifi_enabled config \<and> needReconnect s \<and> link s \<noteq> Up \<and> c_str (wifi_ssid config) \<noteq> [] \<Longrightarrow>
      needReconnect (fst (reconnectWiFi n config w s)) = False
      \<and> fst (snd (reconnectWiFi n config w s)) =
          [WiFi_disconnect False True,
           DEBUG_MSG ''... Reconnecting to WiFi access point'',
           WiFi_mode WIFI_MODE_STA,
           WiFi_begin (c_str (wifi_ssid config))
             (if c_str (wifi_psk config) = [] then None else Some (c_str (wifi_psk config)))]"
    by (simp add: reconnectWiFi_def WiFi_isConnected_def deref_NUL_iff Let_def)
  ultimately show ?thesis by blast
qed

theorem reconnectWiFi_connect_rule_witness:
  "(wifi_enabled cfgMyNet \<and> needReconnect initState \<and> link initState \<noteq> Up
      \<and> c_str (wifi_ssid cfgMyNet) \<noteq> [])
   \<and> needReconnect (fst (reconnectWiFi False cfgMyNet world0 initState)) = False
   \<and> fst (snd (reconnectWiFi False cfgMyNet world0 initState)) =
        [WiFi_disconnect False True, DEBUG_MSG ''... Reconnecting to WiFi access point'',
         WiFi_mode WIFI_MODE_STA, WiFi_begin ''MyNet'' (Some ''secret'')]
   \<and> \<not> wifi_enabled (cfgMyNet\<lparr>wifi_enabled := False\<rparr>)
   \<and> connects (fst (snd (reconnectWiFi False (cfgMyNet\<lparr>wifi_enabled := False\<rparr>) world0 initState))) = []
   \<and> connects (snd (exec False (cfgMyNet\<lparr>wifi_enabled := False\<rparr>)
        [(world0, Tick), (world0, Event SYSTEM_EVENT_STA_LOST_IP info8), (world0, Tick)]
        initState)) = []"
  using reconnectWiFi_connect_rule [where config = cfgMyNet and s = initState and n = False
          and w = world0]
        reconnectWiFi_connect_rule [where config = "cfgMyNet\<lparr>wifi_enabled := False\<rparr>"
          and s = initState and n = False and w = world0
          and tr = "[(world0, Tick), (world0, Event SYSTEM_EVENT_STA_LOST_IP info8), (world0, Tick)]"]
  by (simp add: cfgMyNet_def initState_def c_str_def NUL_def)

text \<open>
  C10, as the claim states it, fails for the initial setup: \<^verbatim>\<open>initWifi\<close> issues no
  connect command. It sets its local \<^verbatim>\<open>wifiPsw\<close> to \<^verbatim>\<open>NULL\<close> for an empty secret and
  never reads it again. With the network enabled, the name \<^verbatim>\<open>MyNet\<close> and an empty
  secret it runs to the end, returns true, and \<^verbatim>\<open>WiFi.begin\<close> is not among its effects.
\<close>

theorem initWifi_issues_no_connect:
  "c_str (wifi_psk (cfgMyNet\<lparr>wifi_psk := []\<rparr>)) = []
   \<and> initWifi (cfgMyNet\<lparr>wifi_psk := []\<rparr>) mac0 initState =
      (True,
       initState\<lparr>ourHost := ''Meshtastic-ab0c'', wifiReconnect := True\<rparr>,
       [createSSLCert, WiFi_mode WIFI_MODE_STA, WiFi_setHostname ''Meshtastic-ab0c'',
        WiFi_onEvent_WiFiEvent, WiFi_setAutoReconnect True, WiFi_setSleep False,
        esp_wifi_set_ps_NONE, WiFi_onEvent_lambda SYSTEM_EVENT_STA_DISCONNECTED,
        DEBUG_MSG ''JOINING WIFI soon: ssid=%s'', new_Periodic ''WifiConnect''])
   \<and> connects (snd (snd (initWifi (cfgMyNet\<lparr>wifi_psk := []\<rparr>) mac0 initState))) = []"
  by (simp add: initWifi_def cfgMyNet_def mac0_def hex2_def hexdigit_def c_str_def NUL_def
      Let_def)

text \<open>
  C10, amended. The initial setup issues no connect command, whatever the secret. With
  an empty configured secret, every connect command the scheduler issues carries the
  \<^verbatim>\<open>NULL\<close> secret (\<open>None\<close>), never the empty string: on each tick, over every run, and
  in particular on the first tick after the initial setup, which issues the first
  connect.
\<close>

theorem empty_secret_is_NULL:
  "connects (snd (snd (initWifi config dmac s0))) = []
   \<and> (c_str (wifi_psk config) = [] \<longrightarrow>
        set (connects (fst (snd (reconnectWiFi n config w s))))
          \<subseteq> {(c_str (wifi_ssid config), None)}
        \<and> (wifi_enabled config \<and> needReconnect s \<and> link s \<noteq> Up
             \<and> c_str (wifi_ssid config) \<noteq> [] \<longrightarrow>
             connects (fst (snd (reconnectWiFi n config w s))) = [(c_str (wifi_ssid config), None)])
        \<and> set (connects (snd (exec n config tr s))) \<subseteq> {(c_str (wifi_ssid config), None)}
        \<and> (wifi_enabled config \<and> c_str (wifi_ssid config) \<noteq> [] \<longrightarrow>
             connects (fst (snd (reconnectWiFi n config w (startState config dmac))))
               = [(c_str (wifi_ssid config), None)]))"
proof -
  have "c_str (wifi_psk config) = [] \<Longrightarrow>
      set (connects (snd (exec n config tr s))) \<subseteq> {(c_str (wifi_ssid config), None)}"
    using exec_connects [of n config tr s] by (auto split: if_splits)
  moreover have "c_str (wifi_psk config) = [] \<Longrightarrow>
      set (connects (fst (snd (reconnectWiFi n config w s))))
      \<subseteq> {(c_str (wifi_ssid config), None)}"
    by (auto simp add: reconnectWiFi_connects)
  moreover have "c_str (wifi_psk config) = [] \<Longrightarrow>
      wifi_enabled config \<and> needReconnect s \<and> link s \<noteq> Up
      \<and> c_str (wifi_ssid config) \<noteq> [] \<longrightarrow>
      connects (fst (snd (reconnectWiFi n config w s))) = [(c_str (wifi_ssid config), None)]"
    by (simp add: reconnectWiFi_connects)
  moreover have "c_str (wifi_psk config) = [] \<Longrightarrow>
      wifi_enabled config \<and> c_str (wifi_ssid config) \<noteq> [] \<longrightarrow>
      connects (fst (snd (reconnectWiFi n config w (startState config dmac))))
        = [(c_str (wifi_ssid config), None)]"
    by (simp add: reconnectWiFi_connects startState_intent)
  moreover have "connects (snd (snd (initWifi config dmac s0))) = []"
    by (rule initWifi_connects)
  ultimately show ?thesis by blast
qed

theorem empty_secret_is_NULL_witness:
  "c_str (wifi_psk (cfgMyNet\<lparr>wifi_psk := []\<rparr>)) = []
   \<and> wifi_enabled (cfgMyNet\<lparr>wifi_psk := []\<rparr>)
   \<and> c_str (wifi_ssid (cfgMyNet\<lparr>wifi_psk := []\<rparr>)) = ''MyNet''
   \<and> connects (fst (snd (reconnectWiFi False (cfgMyNet\<lparr>wifi_psk := []\<rparr>) world0
        (startState (cfgMyNet\<lparr>wifi_psk := []\<rparr>) mac0)))) = [(''MyNet'', None)]
   \<and> needReconnect initState
   \<and> link initState = Down
   \<and> connects (fst (snd (reconnectWiFi False (cfgMyNet\<lparr>wifi_psk := []\<rparr>) world0 initState)))
       = [(''MyNet'', None)]"
proof -
  have h: "c_str (wifi_psk (cfgMyNet\<lparr>wifi_psk := []\<rparr>)) = []"
    "wifi_enabled (cfgMyNet\<lparr>wifi_psk := []\<rparr>)"
    "c_str (wifi_ssid (cfgMyNet\<lparr>wifi_psk := []\<rparr>)) = ''MyNet''"
    "needReconnect initState" "link initState = Down"
    by (simp_all add: cfgMyNet_def initState_def c_str_def NUL_def)
  from empty_secret_is_NULL [where config = "cfgMyNet\<lparr>wifi_psk := []\<rparr>" and s = initState
          and n = False and w = world0 and dmac = mac0 and ?s0.0 = initState and tr = "[]"] h
  show ?thesis by simp
qed

text \<open>
  C8. In a build with the NTP client, a tick with the link Up requests one time sample
  (\<^verbatim>\<open>timeClient.update()\<close>). On success it submits the epoch seconds, with zero
  microseconds, to \<^verbatim>\<open>perhapsSetRTC\<close> under the tag \<open>RTCQualityNTP\<close>; on failure it
  logs and does nothing more. With the link not Up no time sample is requested and none
  is submitted.
\<close>

theorem time_sync_on_tick:
  assumes "\<not> DISABLE_NTP"
  shows "(link s = Up \<and> ntp_update_ok w \<longrightarrow>
           fst (snd (reconnectWiFi DISABLE_NTP config w s)) =
             [DEBUG_MSG ''Updating NTP time'', timeClient_update,
              DEBUG_MSG ''NTP Request Success - Setting RTCQualityNTP if needed'',
              perhapsSetRTC RTCQualityNTP \<lparr> tv_sec = ntp_epoch w, tv_usec = 0 \<rparr>])
    \<and> (link s = Up \<and> \<not> ntp_update_ok w \<longrightarrow>
           fst (snd (reconnectWiFi DISABLE_NTP config w s)) =
             [DEBUG_MSG ''Updating NTP time'', timeClient_update, DEBUG_MSG ''NTP Update failed''])
    \<and> (link s = Up \<longrightarrow>
           count_list (fst (snd (reconnectWiFi DISABLE_NTP config w s))) timeClient_update = 1)
    \<and> (link s \<noteq> Up \<longrightarrow>
           count_list (fst (snd (reconnectWiFi DISABLE_NTP config w s))) timeClient_update = 0
           \<and> rtc_samples (fst (snd (reconnectWiFi DISABLE_NTP config w s))) = [])"
  using assms
  by (simp add: reconnectWiFi_def WiFi_isConnected_def Let_def rtc_samples_def)

theorem time_sync_on_tick_witness:
  "link (initState\<lparr>link := Up\<rparr>) = Up \<and> ntp_update_ok world0
   \<and> fst (snd (reconnectWiFi False cfgMyNet world0 (initState\<lparr>link := Up\<rparr>))) =
       [DEBUG_MSG ''Updating NTP time'', timeClient_update,
        DEBUG_MSG ''NTP Request Success - Setting RTCQualityNTP if needed'',
        perhapsSetRTC RTCQualityNTP \<lparr> tv_sec = 1700000000, tv_usec = 0 \<rparr>]
   \<and> \<not> ntp_update_ok (world0\<lparr>ntp_update_ok := False\<rparr>)
   \<and> fst (snd (reconnectWiFi False cfgMyNet (world0\<lparr>ntp_update_ok := False\<rparr>)
        (initState\<lparr>link := Up\<rparr>))) =
       [DEBUG_MSG ''Updating NTP time'', timeClient_update, DEBUG_MSG ''NTP Update failed'']
   \<and> link initState \<noteq> Up
   \<and> count_list (fst (snd (reconnectWiFi False cfgMyNet world0 initState))) timeClient_update = 0"
  using time_sync_on_tick [where DISABLE_NTP = False and s = "initState\<lparr>link := Up\<rparr>"
          and w = world0 and config = cfgMyNet]
        time_sync_on_tick [where DISABLE_NTP = False and s = "initState\<lparr>link := Up\<rparr>"
          and w = "world0\<lparr>ntp_update_ok := False\<rparr>" and config = cfgMyNet]
        time_sync_on_tick [where DISABLE_NTP = False and s = initState
          and w = world0 and config = cfgMyNet]
  by (simp add: world0_def initState_def)

subsection \<open>The disconnect reason\<close>

text \<open>
  C7. A tick leaves \<open>wifiDisconnectReason\<close> as it was, so \<open>getWifiDisconnectReason\<close>
  returns the same value before and after any tick and after any number of ticks; the
  connect and disconnect commands do not reset it. Of the link events only the
  disconnected event writes it.
\<close>

theorem tick_keeps_reason:
  "wifiDisconnectReason (fst (reconnectWiFi n config w s)) = wifiDisconnectReason s
   \<and> getWifiDisconnectReason (fst (reconnectWiFi n config w s)) = getWifiDisconnectReason s
   \<and> getWifiDisconnectReason (fst (exec n config (map (\<lambda>w. (w, Tick)) ws) s))
       = getWifiDisconnectReason s
   \<and> (event \<noteq> SYSTEM_EVENT_STA_DISCONNECTED \<longrightarrow>
        getWifiDisconnectReason (fst (onEvent n w event info s)) = getWifiDisconnectReason s)"
  by (simp add: getWifiDisconnectReason_def reconnectWiFi_frame exec_ticks_reason onEvent_reason)

theorem tick_keeps_reason_witness:
  "SYSTEM_EVENT_STA_GOT_IP \<noteq> SYSTEM_EVENT_STA_DISCONNECTED
   \<and> getWifiDisconnectReason (fst (onEvent False world0 SYSTEM_EVENT_STA_GOT_IP info8
        (initState\<lparr>wifiDisconnectReason := 3\<rparr>))) = 3
   \<and> getWifiDisconnectReason (fst (reconnectWiFi False cfgMyNet world0
        (initState\<lparr>wifiDisconnectReason := 3\<rparr>))) = 3"
  using tick_keeps_reason [where event = SYSTEM_EVENT_STA_GOT_IP and n = False and w = world0
          and info = info8 and s = "initState\<lparr>wifiDisconnectReason := 3\<rparr>" and config = cfgMyNet]
  by (simp add: getWifiDisconnectReason_def initState_def)

text \<open>
  C4, as the claim states it, fails for the address-lost event: the handler that stores
  the reason is registered for the disconnected event only. From process start, with the
  stored reason 0, an address-lost event whose record reads reason 8 leaves 0 stored.
\<close>

theorem address_lost_keeps_reason:
  "getWifiDisconnectReason (fst (onEvent False world0 SYSTEM_EVENT_STA_LOST_IP info8
      (startState cfgMyNet mac0))) = 0
   \<and> reason info8 = 8"
  by (simp add: onEvent_def getWifiDisconnectReason_def startState_def initWifi_def
      initState_def cfgMyNet_def info8_def NUL_def Let_def)

text \<open>
  C4, amended. A disconnected event sets \<open>needReconnect\<close>, stores the reason code of the
  event, which \<open>getWifiDisconnectReason\<close> then returns, and takes the link Down. An
  address-lost event sets \<open>needReconnect\<close> and takes the link Down; the stored reason
  keeps its previous value.
\<close>

theorem down_event_effects:
  "needReconnect (fst (onEvent n w SYSTEM_EVENT_STA_DISCONNECTED info s)) = True
   \<and> getWifiDisconnectReason (fst (onEvent n w SYSTEM_EVENT_STA_DISCONNECTED info s)) = reason info
   \<and> link (fst (onEvent n w SYSTEM_EVENT_STA_DISCONNECTED info s)) = Down
   \<and> needReconnect (fst (onEvent n w SYSTEM_EVENT_STA_LOST_IP info s)) = True
   \<and> getWifiDisconnectReason (fst (onEvent n w SYSTEM_EVENT_STA_LOST_IP info s))
       = getWifiDisconnectReason s
   \<and> link (fst (onEvent n w SYSTEM_EVENT_STA_LOST_IP info s)) = Down"
  by (simp add: onEvent_def onDisconnected_def getWifiDisconnectReason_def Let_def)

subsection \<open>The startup gate\<close>

text \<open>
  C2. In a run from a state where \<open>APStartupComplete\<close> is false (as at process start)
  that holds at least one became-usable event (\<open>SYSTEM_EVENT_STA_GOT_IP\<close> or
  \<open>SYSTEM_EVENT_AP_START\<close>), among any ticks and other events, the initialisation of the
  dependent services (mDNS responder, NTP client when the build has it, web server, API
  server) is executed exactly once: not before the first such event, once on it, and
  never after it.
\<close>

theorem startup_gate_once:
  assumes "\<not> APStartupComplete s" and "\<forall>y\<in>set pre. \<not> usable y" and "usable x"
  shows "services (snd (exec n config pre s)) = []
    \<and> services (snd (step n config x (fst (exec n config pre s)))) =
        MDNS_begin ''Meshtastic'' # (if n then [] else [timeClient_begin])
        @ [initWebServer, initApiServer]
    \<and> services (snd (exec n config post
        (fst (step n config x (fst (exec n config pre s)))))) = []
    \<and> services (snd (exec n config (pre @ x # post) s)) =
        MDNS_begin ''Meshtastic'' # (if n then [] else [timeClient_begin])
        @ [initWebServer, initApiServer]
    \<and> APStartupComplete (fst (exec n config (pre @ x # post) s))"
proof -
  let ?s1 = "fst (exec n config pre s)"
  let ?s2 = "fst (step n config x ?s1)"
  let ?blk = "MDNS_begin ''Meshtastic'' # (if n then [] else [timeClient_begin])
        @ [initWebServer, initApiServer]"
  have pre: "services (snd (exec n config pre s)) = []" "\<not> APStartupComplete ?s1"
    using exec_services_quiet [of s pre n config] assms(1,2) by simp_all
  have mid: "services (snd (step n config x ?s1)) = ?blk" "APStartupComplete ?s2"
    using pre(2) assms(3) by (simp_all add: step_services)
  have post: "services (snd (exec n config post ?s2)) = []"
    "APStartupComplete (fst (exec n config post ?s2))"
    using exec_services_quiet [of ?s2 post n config] mid(2) by simp_all
  have all: "services (snd (exec n config (pre @ x # post) s)) = ?blk"
    using pre(1) mid(1) post(1) by (simp add: exec_append exec_Cons del: exec.simps)
  have fin: "APStartupComplete (fst (exec n config (pre @ x # post) s))"
    using post(2) by (simp add: exec_append exec_Cons del: exec.simps)
  from pre(1) mid(1) post(1) all fin show ?thesis by blast
qed

theorem startup_gate_once_witness:
  "\<not> APStartupComplete (startState cfgMyNet mac0)
   \<and> \<not> usable (world0, Tick)
   \<and> usable (world0, Event SYSTEM_EVENT_STA_GOT_IP info8)
   \<and> services (snd (exec False cfgMyNet
        ([(world0, Tick)] @ (world0, Event SYSTEM_EVENT_STA_GOT_IP info8) #
         [(world0, Event SYSTEM_EVENT_STA_DISCONNECTED info8),
          (world0, Event SYSTEM_EVENT_STA_GOT_IP info8),
          (world0, Event SYSTEM_EVENT_AP_START info8)])
        (startState cfgMyNet mac0))) =
       [MDNS_begin ''Meshtastic'', timeClient_begin, initWebServer, initApiServer]"
proof -
  have h1: "\<not> APStartupComplete (startState cfgMyNet mac0)"
    by (simp add: startState_def initWifi_def initState_def Let_def)
  have h2: "\<forall>y\<in>set [(world0, Tick)]. \<not> usable y" by simp
  have h3: "usable (world0, Event SYSTEM_EVENT_STA_GOT_IP info8)" by simp
  from startup_gate_once [OF h1 h2 h3, of False cfgMyNet
      "[(world0, Event SYSTEM_EVENT_STA_DISCONNECTED info8),
          (world0, Event SYSTEM_EVENT_STA_GOT_IP info8),
          (world0, Event SYSTEM_EVENT_AP_START info8)]"] h1 h3
  show ?thesis by simp
qed

subsection \<open>The reconnect notification\<close>

text \<open>
  C5, as the claim states it, fails when there is no message-queue client: the call is
  guarded by \<^verbatim>\<open>if (mqtt)\<close>. From process start, with \<^verbatim>\<open>mqtt\<close> not set, an
  address-acquired event brings the link Up and runs the startup gate, and
  \<^verbatim>\<open>reconnect\<close> is not called.
\<close>

theorem no_client_no_notify:
  "\<not> mqtt (world0\<lparr>mqtt := False\<rparr>)
   \<and> link (fst (onEvent False (world0\<lparr>mqtt := False\<rparr>) SYSTEM_EVENT_STA_GOT_IP info8
        (startState cfgMyNet mac0))) = Up
   \<and> count_list (snd (onEvent False (world0\<lparr>mqtt := False\<rparr>) SYSTEM_EVENT_STA_GOT_IP info8
        (startState cfgMyNet mac0))) mqtt_reconnect = 0
   \<and> filter (\<lambda>e. \<not> is_log e)
        (snd (onEvent False (world0\<lparr>mqtt := False\<rparr>) SYSTEM_EVENT_STA_GOT_IP info8
           (startState cfgMyNet mac0))) =
      [MDNS_begin ''Meshtastic'', MDNS_addService ''http'' ''tcp'' 80,
       MDNS_addService ''https'' ''tcp'' 443, timeClient_begin,
       timeClient_setUpdateInterval 3600, initWebServer, initApiServer]"
  by (simp add: onEvent_def onNetworkConnected_def startState_def initWifi_def initState_def
      cfgMyNet_def world0_def NUL_def event_banner_def Let_def)

text \<open>
  C5, amended. Both entries to Up, the address-acquired event and the start of
  access-point mode, run \<open>onNetworkConnected\<close> on the same state: apart from their log
  lines they have the same effects and the same resulting state, with the link Up. With
  a message-queue client present (\<^verbatim>\<open>mqtt\<close> set), each of them calls its \<^verbatim>\<open>reconnect\<close>
  exactly once, as the last effect, also when the startup gate has fired before, where it
  is the only effect besides the log. With no client, neither calls it. So a run calls
  it once for every became-usable event that finds a client present.
\<close>

theorem notify_on_every_entry:
  "filter (\<lambda>e. \<not> is_log e) (snd (onEvent n w SYSTEM_EVENT_STA_GOT_IP info s)) =
     filter (\<lambda>e. \<not> is_log e) (snd (onEvent n w SYSTEM_EVENT_AP_START info s))
   \<and> fst (onEvent n w SYSTEM_EVENT_STA_GOT_IP info s) = fst (onEvent n w SYSTEM_EVENT_AP_START info s)
   \<and> link (fst (onEvent n w SYSTEM_EVENT_STA_GOT_IP info s)) = Up
   \<and> (mqtt w \<longrightarrow>
        count_list (snd (onEvent n w SYSTEM_EVENT_STA_GOT_IP info s)) mqtt_reconnect = 1
        \<and> count_list (snd (onEvent n w SYSTEM_EVENT_AP_START info s)) mqtt_reconnect = 1
        \<and> last (snd (onEvent n w SYSTEM_EVENT_STA_GOT_IP info s)) = mqtt_reconnect
        \<and> last (snd (onEvent n w SYSTEM_EVENT_AP_START info s)) = mqtt_reconnect)
   \<and> (mqtt w \<and> APStartupComplete s \<longrightarrow>
        filter (\<lambda>e. \<not> is_log e) (snd (onEvent n w SYSTEM_EVENT_STA_GOT_IP info s)) = [mqtt_reconnect])
   \<and> ((\<forall>x\<in>set tr. mqtt (fst x)) \<longrightarrow>
        count_list (snd (exec n config tr s)) mqtt_reconnect = length (filter usable tr))
   \<and> (\<not> mqtt w \<longrightarrow>
        count_list (snd (onEvent n w SYSTEM_EVENT_STA_GOT_IP info s)) mqtt_reconnect = 0
        \<and> count_list (snd (onEvent n w SYSTEM_EVENT_AP_START info s)) mqtt_reconnect = 0)
   \<and> count_list (snd (exec n config tr s)) mqtt_reconnect =
        length (filter (\<lambda>x. usable x \<and> mqtt (fst x)) tr)"
proof -
  have a: "(\<forall>x\<in>set tr. mqtt (fst x)) \<longrightarrow>
        count_list (snd (exec n config tr s)) mqtt_reconnect = length (filter usable tr)"
    using exec_notify [of tr n config s] by blast
  have h: "\<not> mqtt w \<longrightarrow>
        count_list (snd (onEvent n w SYSTEM_EVENT_STA_GOT_IP info s)) mqtt_reconnect = 0
        \<and> count_list (snd (onEvent n w SYSTEM_EVENT_AP_START info s)) mqtt_reconnect = 0"
    by (simp add: onEvent_notify)
  have i: "count_list (snd (exec n config tr s)) mqtt_reconnect =
        length (filter (\<lambda>x. usable x \<and> mqtt (fst x)) tr)"
    by (rule exec_notify_gen)
  have b: "mqtt w \<and> APStartupComplete s \<longrightarrow>
        filter (\<lambda>e. \<not> is_log e) (snd (onEvent n w SYSTEM_EVENT_STA_GOT_IP info s)) = [mqtt_reconnect]"
    by (simp add: onEvent_usable onNetworkConnected_notify event_banner_def)
  have c: "mqtt w \<longrightarrow>
        count_list (snd (onEvent n w SYSTEM_EVENT_STA_GOT_IP info s)) mqtt_reconnect = 1
        \<and> count_list (snd (onEvent n w SYSTEM_EVENT_AP_START info s)) mqtt_reconnect = 1"
    by (simp add: onEvent_notify)
  have ne: "mqtt w \<Longrightarrow> snd (onNetworkConnected n w (s\<lparr>link := Up\<rparr>)) \<noteq> []"
    by (simp add: onNetworkConnected_def Let_def)
  have d: "mqtt w \<longrightarrow>
        last (snd (onEvent n w SYSTEM_EVENT_STA_GOT_IP info s)) = mqtt_reconnect
        \<and> last (snd (onEvent n w SYSTEM_EVENT_AP_START info s)) = mqtt_reconnect"
    using ne by (simp add: onEvent_usable onNetworkConnected_notify)
  have e: "filter (\<lambda>e. \<not> is_log e) (snd (onEvent n w SYSTEM_EVENT_STA_GOT_IP info s)) =
     filter (\<lambda>e. \<not> is_log e) (snd (onEvent n w SYSTEM_EVENT_AP_START info s))"
    by (simp add: onEvent_usable event_banner_def)
  have f: "fst (onEvent n w SYSTEM_EVENT_STA_GOT_IP info s) = fst (onEvent n w SYSTEM_EVENT_AP_START info s)"
    by (simp add: onEvent_usable)
  have g: "link (fst (onEvent n w SYSTEM_EVENT_STA_GOT_IP info s)) = Up"
    by (simp add: onEvent_link)
  from a b c d e f g h i show ?thesis by blast
qed

theorem notify_on_every_entry_witness:
  "mqtt world0
   \<and> list_all (\<lambda>x. mqtt (fst x)) traceB
   \<and> length (filter usable traceB) = 2
   \<and> count_list (snd (exec False cfgMyNet traceB (startState cfgMyNet mac0))) mqtt_reconnect = 2
   \<and> APStartupComplete (initState\<lparr>APStartupComplete := True\<rparr>)
   \<and> filter (\<lambda>e. \<not> is_log e)
        (snd (onEvent False world0 SYSTEM_EVENT_STA_GOT_IP info8
           (initState\<lparr>APStartupComplete := True\<rparr>))) = [mqtt_reconnect]
   \<and> last (snd (onEvent False world0 SYSTEM_EVENT_AP_START info8 initState)) = mqtt_reconnect
   \<and> \<not> mqtt (world0\<lparr>mqtt := False\<rparr>)
   \<and> count_list (snd (onEvent False (world0\<lparr>mqtt := False\<rparr>) SYSTEM_EVENT_AP_START info8
        initState)) mqtt_reconnect = 0"
proof -
  have h1: "mqtt world0" by (simp add: world0_def)
  have h2: "\<forall>x\<in>set traceB. mqtt (fst x)" by (simp add: traceB_def world0_def)
  have h3: "length (filter usable traceB) = 2" by (simp add: traceB_def)
  have h4: "APStartupComplete (initState\<lparr>APStartupComplete := True\<rparr>)" by simp
  have a: "count_list (snd (exec False cfgMyNet traceB (startState cfgMyNet mac0)))
      mqtt_reconnect = 2"
    using notify_on_every_entry [where w = world0 and tr = traceB and n = False
         and config = cfgMyNet and s = "startState cfgMyNet mac0" and info = info8] h2 h3
    by simp
  have b: "filter (\<lambda>e. \<not> is_log e)
        (snd (onEvent False world0 SYSTEM_EVENT_STA_GOT_IP info8
           (initState\<lparr>APStartupComplete := True\<rparr>))) = [mqtt_reconnect]"
    using notify_on_every_entry [where w = world0 and tr = "[]" and n = False
         and config = cfgMyNet and s = "initState\<lparr>APStartupComplete := True\<rparr>"
         and info = info8] h1 h4
    by blast
  have c: "last (snd (onEvent False world0 SYSTEM_EVENT_AP_START info8 initState))
      = mqtt_reconnect"
    using notify_on_every_entry [where w = world0 and tr = "[]" and n = False
         and config = cfgMyNet and s = initState and info = info8] h1
    by simp
  have h5: "\<not> mqtt (world0\<lparr>mqtt := False\<rparr>)" by simp
  have d: "count_list (snd (onEvent False (world0\<lparr>mqtt := False\<rparr>) SYSTEM_EVENT_AP_START
      info8 initState)) mqtt_reconnect = 0"
    using notify_on_every_entry [where w = "world0\<lparr>mqtt := False\<rparr>" and tr = "[]"
         and n = False and config = cfgMyNet and s = initState and info = info8] h5
    by blast
  from a b c d h1 h2 h3 h4 h5
  show ?thesis by (simp add: list_all_iff)
qed

subsection \<open>The reconnect intent and the link\<close>

text \<open>
  C1, as the claim states it, fails in its first half: no link event clears
  \<open>needReconnect\<close>, so it can be set while the link is Up. In \<open>traceA\<close> it is still set
  from process start when access-point mode brings the link Up; in \<open>traceB\<close> the
  disconnected event sets it and the stack's own reconnect brings the link Up before any
  tick.
\<close>

theorem reconnect_intent_while_up:
  "needReconnect (fst (exec False cfgMyNet traceA (startState cfgMyNet mac0)))
   \<and> link (fst (exec False cfgMyNet traceA (startState cfgMyNet mac0))) = Up
   \<and> needReconnect (fst (exec False cfgMyNet traceB (startState cfgMyNet mac0)))
   \<and> link (fst (exec False cfgMyNet traceB (startState cfgMyNet mac0))) = Up"
  by (simp add: traceA_def traceB_def exec_Cons exec_Nil onEvent_need onEvent_link
      startState_intent case_prod_beta del: exec.simps)

text \<open>
  C1, amended. At every state reached from process start by link events and ticks: a
  tick with the link Up issues no connect command (the tick reads the link itself); a
  tick that issues a connect command leaves \<open>needReconnect\<close> false and the link
  Connecting; a disconnected or address-lost event leaves \<open>needReconnect\<close> true; and
  \<open>needReconnect\<close> is true while the link is Down and false while it is Connecting.
  While the link is Up, \<open>needReconnect\<close> may have either value.
\<close>

theorem connect_only_while_not_up:
  "(let s = fst (exec n config tr (startState config dmac)) in
      (link s = Up \<longrightarrow> connects (fst (snd (reconnectWiFi n config w s))) = [])
    \<and> (connects (fst (snd (reconnectWiFi n config w s))) \<noteq> [] \<longrightarrow>
         \<not> needReconnect (fst (reconnectWiFi n config w s))
         \<and> link (fst (reconnectWiFi n config w s)) = Connecting)
    \<and> needReconnect (fst (onEvent n w SYSTEM_EVENT_STA_DISCONNECTED info s))
    \<and> needReconnect (fst (onEvent n w SYSTEM_EVENT_STA_LOST_IP info s))
    \<and> (link s = Down \<longrightarrow> needReconnect s)
    \<and> (link s = Connecting \<longrightarrow> \<not> needReconnect s))"
proof -
  define s where "s = fst (exec n config tr (startState config dmac))"
  have inv: "link s \<noteq> Up \<longrightarrow> (needReconnect s \<longleftrightarrow> link s = Down)"
    unfolding s_def by (rule exec_intent) (simp add: startState_intent)
  have a: "link s = Up \<longrightarrow> connects (fst (snd (reconnectWiFi n config w s))) = []"
    by (simp add: reconnectWiFi_connects)
  have b: "connects (fst (snd (reconnectWiFi n config w s))) \<noteq> [] \<longrightarrow>
         \<not> needReconnect (fst (reconnectWiFi n config w s))
         \<and> link (fst (reconnectWiFi n config w s)) = Connecting"
    using reconnectWiFi_state [of n config w s] by simp
  have c: "needReconnect (fst (onEvent n w SYSTEM_EVENT_STA_DISCONNECTED info s))
    \<and> needReconnect (fst (onEvent n w SYSTEM_EVENT_STA_LOST_IP info s))"
    by (simp add: onEvent_need)
  from inv a b c show ?thesis
    unfolding s_def [symmetric] Let_def by auto
qed

theorem connect_only_while_not_up_witness:
  "link (fst (exec False cfgMyNet traceB (startState cfgMyNet mac0))) = Up
   \<and> connects (fst (snd (reconnectWiFi False cfgMyNet world0
        (fst (exec False cfgMyNet traceB (startState cfgMyNet mac0)))))) = []
   \<and> link (fst (exec False cfgMyNet [] (startState cfgMyNet mac0))) = Down
   \<and> needReconnect (fst (exec False cfgMyNet [] (startState cfgMyNet mac0)))
   \<and> connects (fst (snd (reconnectWiFi False cfgMyNet world0
        (fst (exec False cfgMyNet [] (startState cfgMyNet mac0)))))) \<noteq> []
   \<and> link (fst (reconnectWiFi False cfgMyNet world0
        (fst (exec False cfgMyNet [] (startState cfgMyNet mac0))))) = Connecting
   \<and> \<not> needReconnect (fst (reconnectWiFi False cfgMyNet world0
        (fst (exec False cfgMyNet [] (startState cfgMyNet mac0)))))"
proof -
  have up: "link (fst (exec False cfgMyNet traceB (startState cfgMyNet mac0))) = Up"
    by (simp add: traceB_def exec_Cons exec_Nil onEvent_link del: exec.simps)
  have dn: "link (fst (exec False cfgMyNet [] (startState cfgMyNet mac0))) = Down"
    by (simp add: startState_intent)
  have go: "connects (fst (snd (reconnectWiFi False cfgMyNet world0
        (fst (exec False cfgMyNet [] (startState cfgMyNet mac0)))))) \<noteq> []"
    by (simp add: reconnectWiFi_connects startState_intent cfgMyNet_def c_str_def NUL_def)
  from connect_only_while_not_up [where n = False and config = cfgMyNet and tr = traceB
         and dmac = mac0 and w = world0 and info = info8]
       connect_only_while_not_up [where n = False and config = cfgMyNet and tr = "[]"
         and dmac = mac0 and w = world0 and info = info8]
       up dn go
  show ?thesis unfolding Let_def by blast
qed

end
